theory Spec2Isabelle
  imports Main "HOL-Library.Multiset" "HOL-Library.Sublist"
begin

section \<open>The DDL loader of yo: loaders/parser.go\<close>

text \<open>
  The loader turns the statements of a DDL file, parsed by the external library memefish,
  into a map from table names to aggregates, and answers the generator's questions about
  tables, indexes and index columns from that map. This theory embeds the functions of
  \<^verbatim>\<open>loaders/parser.go\<close> and proves what they compute.
\<close>

subsection \<open>The syntax tree of memefish, as far as the loader reads it\<close>

text \<open>
  Only the fields that \<^verbatim>\<open>parser.go\<close> reads are kept. A pointer that may be nil is an
  \<open>option\<close>; a Go interface with an open set of implementations is a datatype with one
  constructor for each implementation the loader tests for and one constructor, carrying
  the Go type name that \<^verbatim>\<open>%T\<close> prints, for all the others.
\<close>

record Ident =
  Ident_Name :: string

record IndexKey =
  IndexKey_Name :: Ident

record CreateTable =
  CreateTable_Name :: Ident
  CreateTable_PrimaryKeys :: "IndexKey list"

record Storing =
  Storing_Columns :: "Ident list"

record CreateIndex =
  CreateIndex_Name :: Ident
  CreateIndex_TableName :: Ident
  CreateIndex_Unique :: bool
  CreateIndex_Storing :: "Storing option"
  CreateIndex_Keys :: "IndexKey list"

datatype TableExpr =
    TableExpr_TableName Ident
  | TableExpr_Join TableExpr TableExpr
  | TableExpr_other string

record From =
  From_Source :: TableExpr

record Select =
  Select_From :: "From option"

datatype QueryExpr =
    QueryExpr_Select Select
  | QueryExpr_other string

record CreateView =
  CreateView_Name :: Ident
  CreateView_Query :: QueryExpr

datatype TableAlteration =
    AddTableConstraint
  | TableAlteration_other string

record AlterTable =
  AlterTable_Name :: Ident
  AlterTable_TableAlteration :: TableAlteration

datatype DDL =
    DDL_CreateTable CreateTable
  | DDL_CreateIndex CreateIndex
  | DDL_AlterTable AlterTable
  | DDL_CreateView CreateView
  | DDL_other string

text \<open>
  What the loader calls and does not implement: reading the file, the two entry points of
  the parser, and the rendering \<^verbatim>\<open>SQL()\<close> of a statement. They are parameters of the
  model. An error they return is its message.
\<close>

record extern =
  ReadFile :: "string \<Rightarrow> string + string"
  ParseDDLs :: "string \<Rightarrow> string \<Rightarrow> string + DDL list"
  ParseDDL :: "string \<Rightarrow> string + DDL"
  SQL :: "DDL \<Rightarrow> string"

subsection \<open>Errors and panics\<close>

text \<open>
  An \<open>error\<close> is a value the Go function returns; \<open>Error_msg\<close> is the text that
  \<^verbatim>\<open>fmt.Errorf\<close> builds for it. A \<open>panic\<close> is a run-time crash: the dereference of a
  nil pointer, or a type assertion without the \<^verbatim>\<open>ok\<close> form on a value of another type.
\<close>

datatype error =
    External string
  | TableUndefined string string
  | StmtUnsupported string
  | ViewWithJoin
  | UnknownSourceType string

datatype panic = NilDereference | InterfaceConversion

datatype failure = Error error | Panic panic

definition quote :: string where
  "quote = [CHR 0x27]"

fun Error_msg :: "error \<Rightarrow> string" where
  "Error_msg (External m) = m"
| "Error_msg (TableUndefined n q) =
     ''table '' @ quote @ n @ quote @ '' is undefined, but got '' @ quote @ q @ quote"
| "Error_msg (StmtUnsupported q) =
     ''stmt should be CreateTable, CreateIndex or AlterTableAddConstraint, but got ''
       @ quote @ q @ quote"
| "Error_msg ViewWithJoin = ''view with join is not supported''"
| "Error_msg (UnknownSourceType ty) = ''unknown source type: '' @ ty"

subsection \<open>The catalog\<close>

record tableOrView =
  createTable :: "CreateTable option"
  createIndexes :: "CreateIndex list"
  createView :: "CreateView option"

text \<open>The zero value of the struct, which Go's \<^verbatim>\<open>m[k]\<close> yields for a missing key.\<close>

definition zero_tableOrView :: tableOrView where
  "zero_tableOrView = \<lparr>createTable = None, createIndexes = [], createView = None\<rparr>"

definition index0 :: "(string \<rightharpoonup> tableOrView) \<Rightarrow> string \<Rightarrow> tableOrView" where
  "index0 m k = (case m k of None \<Rightarrow> zero_tableOrView | Some v \<Rightarrow> v)"

record SpannerLoaderFromDDL =
  tables :: "string \<rightharpoonup> tableOrView"

subsection \<open>NewSpannerLoaderFromDDL\<close>

text \<open>The body of the loop over the parsed statements: one statement, one switch.\<close>

fun addDDL ::
  "(DDL \<Rightarrow> string) \<Rightarrow> (string \<rightharpoonup> tableOrView) \<Rightarrow> DDL \<Rightarrow> failure + (string \<rightharpoonup> tableOrView)"
where
  "addDDL sql tbls (DDL_CreateTable val) =
     (let v = index0 tbls (Ident_Name (CreateTable_Name val));
          v = v\<lparr>createTable := Some val\<rparr>
      in Inr (tbls(Ident_Name (CreateTable_Name val) \<mapsto> v)))"
| "addDDL sql tbls (DDL_CreateIndex val) =
     (case tbls (Ident_Name (CreateIndex_TableName val)) of
        None \<Rightarrow>
          Inl (Error (TableUndefined (Ident_Name (CreateIndex_TableName val))
                        (sql (DDL_CreateIndex val))))
      | Some v \<Rightarrow>
          (let v = v\<lparr>createIndexes := createIndexes v @ [val]\<rparr>
           in Inr (tbls(Ident_Name (CreateIndex_TableName val) \<mapsto> v))))"
| "addDDL sql tbls (DDL_AlterTable val) =
     (case AlterTable_TableAlteration val of
        AddTableConstraint \<Rightarrow> Inr tbls
      | TableAlteration_other ty \<Rightarrow> Inl (Error (StmtUnsupported (sql (DDL_AlterTable val)))))"
| "addDDL sql tbls (DDL_CreateView val) =
     (let v = index0 tbls (Ident_Name (CreateView_Name val));
          v = v\<lparr>createView := Some val\<rparr>
      in Inr (tbls(Ident_Name (CreateView_Name val) \<mapsto> v)))"
| "addDDL sql tbls (DDL_other ty) = Inr tbls"

text \<open>The loop: the first statement that fails ends the construction.\<close>

fun addDDLs ::
  "(DDL \<Rightarrow> string) \<Rightarrow> (string \<rightharpoonup> tableOrView) \<Rightarrow> DDL list
     \<Rightarrow> failure + (string \<rightharpoonup> tableOrView)"
where
  "addDDLs sql tbls [] = Inr tbls"
| "addDDLs sql tbls (ddl # ddls) =
     (case addDDL sql tbls ddl of
        Inl e \<Rightarrow> Inl e
      | Inr tbls' \<Rightarrow> addDDLs sql tbls' ddls)"

text \<open>
  The construction from the parsed statements: the empty map, the loop, and the loader
  around the map (lines 39 and 48 to 73).
\<close>

definition fromDDLs :: "(DDL \<Rightarrow> string) \<Rightarrow> DDL list \<Rightarrow> failure + SpannerLoaderFromDDL" where
  "fromDDLs sql ddls =
     (case addDDLs sql Map.empty ddls of
        Inl e \<Rightarrow> Inl e
      | Inr tbls \<Rightarrow> Inr \<lparr>tables = tbls\<rparr>)"

definition NewSpannerLoaderFromDDL :: "extern \<Rightarrow> string \<Rightarrow> failure + SpannerLoaderFromDDL" where
  "NewSpannerLoaderFromDDL ext fpath =
     (case ReadFile ext fpath of
        Inl err \<Rightarrow> Inl (Error (External err))
      | Inr b \<Rightarrow>
          (case ParseDDLs ext fpath b of
             Inl err \<Rightarrow> Inl (Error (External err))
           | Inr ddls \<Rightarrow> fromDDLs (SQL ext) ddls))"

subsection \<open>The accessors\<close>

text \<open>
  The descriptors of package \<^verbatim>\<open>models\<close>, with the fields the loader sets; every other
  field keeps its zero value.
\<close>

record Table =
  TableName :: string
  ManualPk :: bool

record Index =
  IndexName :: string
  IsUnique :: bool

record IndexColumn =
  SeqNo :: int
  Storing :: bool
  ColumnName :: string

text \<open>
  \<^verbatim>\<open>TableList\<close> ranges over a Go map, and Go leaves the order of that iteration open: it
  may differ from one loop to the next. The order is therefore an argument of the model,
  \<open>ks\<close>, the keys in the order in which this run of the loop visits them; \<open>range_order\<close>
  says which lists the run time may choose.
\<close>

definition range_order :: "(string \<rightharpoonup> 'v) \<Rightarrow> string list \<Rightarrow> bool" where
  "range_order m ks \<longleftrightarrow> distinct ks \<and> set ks = dom m"

fun TableList_loop ::
  "(string \<rightharpoonup> tableOrView) \<Rightarrow> string list \<Rightarrow> Table list \<Rightarrow> failure + Table list"
where
  "TableList_loop m [] tbls = Inr tbls"
| "TableList_loop m (k # ks) tbls =
     (let t = index0 m k in
      case createTable t of
        None \<Rightarrow> Inl (Panic NilDereference)
      | Some ct \<Rightarrow>
          TableList_loop m ks
            (tbls @ [\<lparr>TableName = Ident_Name (CreateTable_Name ct), ManualPk = True\<rparr>]))"

definition TableList :: "SpannerLoaderFromDDL \<Rightarrow> string list \<Rightarrow> failure + Table list" where
  "TableList s ks = TableList_loop (tables s) ks []"

fun IndexList_loop :: "CreateIndex list \<Rightarrow> Index list \<Rightarrow> Index list" where
  "IndexList_loop [] indexes = indexes"
| "IndexList_loop (index # rest) indexes =
     IndexList_loop rest
       (indexes @ [\<lparr>IndexName = Ident_Name (CreateIndex_Name index),
                     IsUnique = CreateIndex_Unique index\<rparr>])"

definition IndexList :: "SpannerLoaderFromDDL \<Rightarrow> string \<Rightarrow> failure + Index list" where
  "IndexList s name = Inr (IndexList_loop (createIndexes (index0 (tables s) name)) [])"

text \<open>The two inner loops of \<^verbatim>\<open>IndexColumnList\<close> and the loop of \<^verbatim>\<open>primaryKeyColumnList\<close>.\<close>

fun storing_loop :: "Ident list \<Rightarrow> IndexColumn list \<Rightarrow> IndexColumn list" where
  "storing_loop [] cols = cols"
| "storing_loop (c # cs) cols =
     storing_loop cs (cols @ [\<lparr>SeqNo = 0, Storing = True, ColumnName = Ident_Name c\<rparr>])"

fun keys_loop :: "int \<Rightarrow> IndexKey list \<Rightarrow> IndexColumn list \<Rightarrow> IndexColumn list" where
  "keys_loop i [] cols = cols"
| "keys_loop i (c # cs) cols =
     keys_loop (i + 1) cs
       (cols @ [\<lparr>SeqNo = i + 1, Storing = False, ColumnName = Ident_Name (IndexKey_Name c)\<rparr>])"

fun IndexColumnList_loop ::
  "string \<Rightarrow> CreateIndex list \<Rightarrow> IndexColumn list \<Rightarrow> IndexColumn list"
where
  "IndexColumnList_loop index [] cols = cols"
| "IndexColumnList_loop index (ix # ixs) cols =
     (if Ident_Name (CreateIndex_Name ix) \<noteq> index then IndexColumnList_loop index ixs cols
      else
        (let cols = (case CreateIndex_Storing ix of
                       None \<Rightarrow> cols
                     | Some st \<Rightarrow> storing_loop (Storing_Columns st) cols)
         in keys_loop 0 (CreateIndex_Keys ix) cols))"

definition firstOrDefault :: "'a \<Rightarrow> 'a list \<Rightarrow> 'a" where
  "firstOrDefault zero s = (case s of [] \<Rightarrow> zero | x # _ \<Rightarrow> x)"

definition baseTablesForViewDDL :: "extern \<Rightarrow> string \<Rightarrow> failure + string list" where
  "baseTablesForViewDDL ext ddlString =
     (case ParseDDL ext ddlString of
        Inl err \<Rightarrow> Inl (Error (External err))
      | Inr ddl \<Rightarrow>
          (case ddl of
             DDL_CreateView cv \<Rightarrow>
               (case CreateView_Query cv of
                  QueryExpr_Select sel \<Rightarrow>
                    (case Select_From sel of
                       None \<Rightarrow> Inl (Panic NilDereference)
                     | Some fr \<Rightarrow>
                         (case From_Source fr of
                            TableExpr_TableName t \<Rightarrow> Inr [Ident_Name t]
                          | TableExpr_Join l r \<Rightarrow> Inl (Error ViewWithJoin)
                          | TableExpr_other ty \<Rightarrow> Inl (Error (UnknownSourceType ty))))
                | QueryExpr_other ty \<Rightarrow> Inl (Panic InterfaceConversion))
           | _ \<Rightarrow> Inl (Panic InterfaceConversion)))"

definition primaryKeyColumnList ::
  "extern \<Rightarrow> SpannerLoaderFromDDL \<Rightarrow> string \<Rightarrow> failure + IndexColumn list"
where
  "primaryKeyColumnList ext s table =
     (case tables s table of
        None \<Rightarrow> Inr []
      | Some tbl \<Rightarrow>
          (case (case createView tbl of
                   None \<Rightarrow> Inr tbl
                 | Some cv \<Rightarrow>
                     (case baseTablesForViewDDL ext (SQL ext (DDL_CreateView cv)) of
                        Inl err \<Rightarrow> Inl err
                      | Inr sourceTable \<Rightarrow>
                          Inr (index0 (tables s) (firstOrDefault [] sourceTable)))) of
             Inl err \<Rightarrow> Inl err
           | Inr tbl \<Rightarrow>
               (case createTable tbl of
                  None \<Rightarrow> Inl (Panic NilDereference)
                | Some ct \<Rightarrow> Inr (keys_loop 0 (CreateTable_PrimaryKeys ct) []))))"

definition IndexColumnList ::
  "extern \<Rightarrow> SpannerLoaderFromDDL \<Rightarrow> string \<Rightarrow> string \<Rightarrow> failure + IndexColumn list"
where
  "IndexColumnList ext s table index =
     (if index = ''PRIMARY_KEY'' then primaryKeyColumnList ext s table
      else Inr (IndexColumnList_loop index (createIndexes (index0 (tables s) table)) []))"

subsection \<open>Notions used to state the properties\<close>

text \<open>
  The columns that a list of keys stands for: the key at position \<open>j\<close>, counted from 0,
  gets sequence number \<open>j + 1\<close> and no storing flag. The columns of a storing clause:
  sequence number 0 and the storing flag.
\<close>

abbreviation key_columns :: "IndexKey list \<Rightarrow> IndexColumn list" where
  "key_columns ks \<equiv>
     map (\<lambda>j. \<lparr>SeqNo = int j + 1, Storing = False,
                ColumnName = Ident_Name (IndexKey_Name (ks ! j))\<rparr>) [0..<length ks]"

abbreviation storing_columns :: "Ident list \<Rightarrow> IndexColumn list" where
  "storing_columns cs \<equiv>
     map (\<lambda>c. \<lparr>SeqNo = 0, Storing = True, ColumnName = Ident_Name c\<rparr>) cs"

text \<open>The descriptor that \<^verbatim>\<open>TableList\<close> appends for the aggregate under the key \<open>k\<close>.\<close>

abbreviation table_of :: "(string \<rightharpoonup> tableOrView) \<Rightarrow> string \<Rightarrow> Table" where
  "table_of m k \<equiv>
     \<lparr>TableName = Ident_Name (CreateTable_Name (the (createTable (index0 m k)))),
      ManualPk = True\<rparr>"

text \<open>
  Every create-index statement of the sequence comes after a create-table statement for
  its table; \<open>D\<close> holds the names of the tables declared so far.
\<close>

fun tables_precede_indexes :: "string set \<Rightarrow> DDL list \<Rightarrow> bool" where
  "tables_precede_indexes D [] = True"
| "tables_precede_indexes D (DDL_CreateTable ct # ddls) =
     tables_precede_indexes (insert (Ident_Name (CreateTable_Name ct)) D) ddls"
| "tables_precede_indexes D (DDL_CreateIndex ci # ddls) =
     (Ident_Name (CreateIndex_TableName ci) \<in> D \<and> tables_precede_indexes D ddls)"
| "tables_precede_indexes D (ddl # ddls) = tables_precede_indexes D ddls"

text \<open>The statement is not an alter-table statement with an alteration other than add-constraint.\<close>

fun no_other_alteration :: "DDL \<Rightarrow> bool" where
  "no_other_alteration (DDL_AlterTable val) =
     (AlterTable_TableAlteration val = AddTableConstraint)"
| "no_other_alteration ddl = True"

text \<open>The create-index statements of the sequence on table \<open>n\<close>, in the order of the sequence.\<close>

fun indexes_on :: "string \<Rightarrow> DDL list \<Rightarrow> CreateIndex list" where
  "indexes_on n [] = []"
| "indexes_on n (DDL_CreateIndex ci # ddls) =
     (if Ident_Name (CreateIndex_TableName ci) = n then ci # indexes_on n ddls
      else indexes_on n ddls)"
| "indexes_on n (ddl # ddls) = indexes_on n ddls"

subsection \<open>Example schemas\<close>

text \<open>
  Concrete statements on which the theorems below are run, and a stand-in for memefish on
  them: \<open>example_SQL\<close> renders a statement, and the parser of \<open>example_extern known\<close> reads
  a text back as the first statement of \<open>known\<close> with that rendering.
\<close>

definition example_table :: "string \<Rightarrow> string list \<Rightarrow> CreateTable" where
  "example_table n pks =
     \<lparr>CreateTable_Name = \<lparr>Ident_Name = n\<rparr>,
      CreateTable_PrimaryKeys = map (\<lambda>k. \<lparr>IndexKey_Name = \<lparr>Ident_Name = k\<rparr>\<rparr>) pks\<rparr>"

definition example_index :: "string \<Rightarrow> string \<Rightarrow> string list \<Rightarrow> string list option \<Rightarrow> CreateIndex" where
  "example_index n t ks st =
     \<lparr>CreateIndex_Name = \<lparr>Ident_Name = n\<rparr>,
      CreateIndex_TableName = \<lparr>Ident_Name = t\<rparr>,
      CreateIndex_Unique = False,
      CreateIndex_Storing =
        map_option (\<lambda>cs. \<lparr>Storing_Columns = map (\<lambda>c. \<lparr>Ident_Name = c\<rparr>) cs\<rparr>) st,
      CreateIndex_Keys = map (\<lambda>k. \<lparr>IndexKey_Name = \<lparr>Ident_Name = k\<rparr>\<rparr>) ks\<rparr>"

definition example_view :: "string \<Rightarrow> TableExpr \<Rightarrow> CreateView" where
  "example_view n src =
     \<lparr>CreateView_Name = \<lparr>Ident_Name = n\<rparr>,
      CreateView_Query = QueryExpr_Select \<lparr>Select_From = Some \<lparr>From_Source = src\<rparr>\<rparr>\<rparr>"

definition example_alter :: "string \<Rightarrow> TableAlteration \<Rightarrow> AlterTable" where
  "example_alter n a = \<lparr>AlterTable_Name = \<lparr>Ident_Name = n\<rparr>, AlterTable_TableAlteration = a\<rparr>"

fun example_TableExpr_SQL :: "TableExpr \<Rightarrow> string" where
  "example_TableExpr_SQL (TableExpr_TableName t) = Ident_Name t"
| "example_TableExpr_SQL (TableExpr_Join l r) =
     example_TableExpr_SQL l @ '' CROSS JOIN '' @ example_TableExpr_SQL r"
| "example_TableExpr_SQL (TableExpr_other ty) = ''<'' @ ty @ ''>''"

fun example_QueryExpr_SQL :: "QueryExpr \<Rightarrow> string" where
  "example_QueryExpr_SQL (QueryExpr_Select sel) =
     (case Select_From sel of
        None \<Rightarrow> ''SELECT 1''
      | Some fr \<Rightarrow> ''SELECT * FROM '' @ example_TableExpr_SQL (From_Source fr))"
| "example_QueryExpr_SQL (QueryExpr_other ty) = ''<'' @ ty @ ''>''"

fun example_SQL :: "DDL \<Rightarrow> string" where
  "example_SQL (DDL_CreateTable val) =
     ''CREATE TABLE '' @ Ident_Name (CreateTable_Name val)"
| "example_SQL (DDL_CreateIndex val) =
     ''CREATE INDEX '' @ Ident_Name (CreateIndex_Name val)
       @ '' ON '' @ Ident_Name (CreateIndex_TableName val)"
| "example_SQL (DDL_AlterTable val) =
     ''ALTER TABLE '' @ Ident_Name (AlterTable_Name val)
       @ (case AlterTable_TableAlteration val of
            AddTableConstraint \<Rightarrow> '' ADD CONSTRAINT''
          | TableAlteration_other ty \<Rightarrow> '' <'' @ ty @ ''>'')"
| "example_SQL (DDL_CreateView val) =
     ''CREATE VIEW '' @ Ident_Name (CreateView_Name val)
       @ '' SQL SECURITY INVOKER AS '' @ example_QueryExpr_SQL (CreateView_Query val)"
| "example_SQL (DDL_other ty) = ''<'' @ ty @ ''>''"

definition example_extern :: "DDL list \<Rightarrow> extern" where
  "example_extern known =
     \<lparr>ReadFile = (\<lambda>fpath. Inr (concat (map (\<lambda>ddl. example_SQL ddl @ '';'') known))),
      ParseDDLs = (\<lambda>fpath b. Inr known),
      ParseDDL = (\<lambda>b. case find (\<lambda>ddl. example_SQL ddl = b) known of
                          None \<Rightarrow> Inl ''syntax error''
                        | Some ddl \<Rightarrow> Inr ddl),
      SQL = example_SQL\<rparr>"

text \<open>A table \<open>T\<close>, a table \<open>U\<close>, and a view that has the name of \<open>T\<close> and selects from \<open>U\<close>.\<close>

definition schema_table_and_view :: "DDL list" where
  "schema_table_and_view =
     [DDL_CreateTable (example_table ''T'' [''k'']),
      DDL_CreateTable (example_table ''U'' [''u'']),
      DDL_CreateView (example_view ''T'' (TableExpr_TableName \<lparr>Ident_Name = ''U''\<rparr>))]"

text \<open>A table with two key columns, and an index on it with two storing and two key columns.\<close>

definition schema_base :: "DDL list" where
  "schema_base =
     [DDL_CreateTable (example_table ''Base'' [''k1'', ''k2'']),
      DDL_CreateIndex (example_index ''Idx'' ''Base'' [''k1'', ''k2''] (Some [''s1'', ''s2'']))]"

text \<open>
  A table, a view on it, a view on a join, a view on a subquery in the FROM clause, and a
  view on a table that the schema does not declare.
\<close>

definition schema_views :: "DDL list" where
  "schema_views =
     [DDL_CreateTable (example_table ''Base'' [''k1'', ''k2'']),
      DDL_CreateView (example_view ''BaseView'' (TableExpr_TableName \<lparr>Ident_Name = ''Base''\<rparr>)),
      DDL_CreateView (example_view ''JoinView''
        (TableExpr_Join (TableExpr_TableName \<lparr>Ident_Name = ''Base''\<rparr>)
                        (TableExpr_TableName \<lparr>Ident_Name = ''Other''\<rparr>))),
      DDL_CreateView (example_view ''SubView'' (TableExpr_other ''*ast.SubQueryTableExpr'')),
      DDL_CreateView (example_view ''Orphan'' (TableExpr_TableName \<lparr>Ident_Name = ''Missing''\<rparr>))]"

text \<open>A table, an index on it, and then an alter-table statement that drops a column.\<close>

definition schema_drop_column :: "DDL list" where
  "schema_drop_column =
     [DDL_CreateTable (example_table ''T'' [''k'']),
      DDL_CreateIndex (example_index ''I'' ''T'' [''k''] None),
      DDL_AlterTable (example_alter ''T'' (TableAlteration_other ''*ast.DropColumn''))]"

text \<open>Two tables with two indexes on the first and one on the second, and an added constraint.\<close>

definition schema_indexes :: "DDL list" where
  "schema_indexes =
     [DDL_CreateTable (example_table ''T'' [''k'']),
      DDL_CreateTable (example_table ''U'' [''u'']),
      DDL_CreateIndex (example_index ''I1'' ''T'' [''a''] None),
      DDL_CreateIndex (example_index ''J'' ''U'' [''b''] None),
      DDL_AlterTable (example_alter ''T'' AddTableConstraint),
      DDL_CreateIndex (example_index ''I2'' ''T'' [''c''] None)]"

text \<open>An index on a table that is declared after it.\<close>

definition schema_index_first :: "DDL list" where
  "schema_index_first =
     [DDL_CreateTable (example_table ''U'' [''u'']),
      DDL_CreateIndex (example_index ''I'' ''T'' [''k''] None),
      DDL_CreateTable (example_table ''T'' [''k''])]"

text \<open>Two tables.\<close>

definition schema_two_tables :: "DDL list" where
  "schema_two_tables =
     [DDL_CreateTable (example_table ''A'' [''a'']),
      DDL_CreateTable (example_table ''B'' [''b''])]"

definition catalog_two_tables :: SpannerLoaderFromDDL where
  "catalog_two_tables =
     \<lparr>tables =
        [''A'' \<mapsto> \<lparr>createTable = Some (example_table ''A'' [''a'']),
                    createIndexes = [], createView = None\<rparr>,
         ''B'' \<mapsto> \<lparr>createTable = Some (example_table ''B'' [''b'']),
                    createIndexes = [], createView = None\<rparr>]\<rparr>"

text \<open>A table and a view on it.\<close>

definition schema_one_view :: "DDL list" where
  "schema_one_view =
     [DDL_CreateTable (example_table ''Base'' [''k1'', ''k2'']),
      DDL_CreateView (example_view ''BaseView'' (TableExpr_TableName \<lparr>Ident_Name = ''Base''\<rparr>))]"

definition catalog_one_view :: SpannerLoaderFromDDL where
  "catalog_one_view =
     \<lparr>tables =
        [''Base'' \<mapsto>
           \<lparr>createTable = Some (example_table ''Base'' [''k1'', ''k2'']),
            createIndexes = [], createView = None\<rparr>,
         ''BaseView'' \<mapsto>
           \<lparr>createTable = None, createIndexes = [],
            createView =
              Some (example_view ''BaseView'' (TableExpr_TableName \<lparr>Ident_Name = ''Base''\<rparr>))\<rparr>]\<rparr>"

text \<open>The catalogs that the loop builds from \<open>schema_base\<close> and from \<open>schema_views\<close>.\<close>

definition catalog_base :: SpannerLoaderFromDDL where
  "catalog_base =
     \<lparr>tables =
        [''Base'' \<mapsto>
           \<lparr>createTable = Some (example_table ''Base'' [''k1'', ''k2'']),
            createIndexes =
              [example_index ''Idx'' ''Base'' [''k1'', ''k2''] (Some [''s1'', ''s2''])],
            createView = None\<rparr>]\<rparr>"

definition view_only :: "CreateView \<Rightarrow> tableOrView" where
  "view_only cv = \<lparr>createTable = None, createIndexes = [], createView = Some cv\<rparr>"

definition catalog_views :: SpannerLoaderFromDDL where
  "catalog_views =
     \<lparr>tables =
        [''Base'' \<mapsto>
           \<lparr>createTable = Some (example_table ''Base'' [''k1'', ''k2'']),
            createIndexes = [], createView = None\<rparr>,
         ''BaseView'' \<mapsto>
           view_only (example_view ''BaseView'' (TableExpr_TableName \<lparr>Ident_Name = ''Base''\<rparr>)),
         ''JoinView'' \<mapsto>
           view_only (example_view ''JoinView''
             (TableExpr_Join (TableExpr_TableName \<lparr>Ident_Name = ''Base''\<rparr>)
                             (TableExpr_TableName \<lparr>Ident_Name = ''Other''\<rparr>))),
         ''SubView'' \<mapsto>
           view_only (example_view ''SubView'' (TableExpr_other ''*ast.SubQueryTableExpr'')),
         ''Orphan'' \<mapsto>
           view_only (example_view ''Orphan'' (TableExpr_TableName \<lparr>Ident_Name = ''Missing''\<rparr>))]\<rparr>"

text \<open>
  A table, and a view whose query is a set operation at the top level
  (\<^verbatim>\<open>SELECT k1 FROM Base UNION ALL SELECT k2 FROM Base\<close>), which memefish parses to a
  \<^verbatim>\<open>*ast.CompoundQuery\<close>.
\<close>

definition union_view :: CreateView where
  "union_view =
     \<lparr>CreateView_Name = \<lparr>Ident_Name = ''UnionView''\<rparr>,
      CreateView_Query = QueryExpr_other ''*ast.CompoundQuery''\<rparr>"

definition schema_union_view :: "DDL list" where
  "schema_union_view =
     [DDL_CreateTable (example_table ''Base'' [''k1'', ''k2'']),
      DDL_CreateView union_view]"

definition catalog_union_view :: SpannerLoaderFromDDL where
  "catalog_union_view =
     \<lparr>tables =
        [''Base'' \<mapsto>
           \<lparr>createTable = Some (example_table ''Base'' [''k1'', ''k2'']),
            createIndexes = [], createView = None\<rparr>,
         ''UnionView'' \<mapsto> view_only union_view]\<rparr>"

section \<open>What the loops compute\<close>

lemmas example_defs =
  example_table_def example_index_def example_view_def example_alter_def
  example_extern_def zero_tableOrView_def index0_def fromDDLs_def

lemma storing_loop_eq: "storing_loop cs cols = cols @ storing_columns cs"
  by (induction cs arbitrary: cols) simp_all

lemma keys_loop_from:
  "keys_loop i ks cols =
     cols @ map (\<lambda>j. \<lparr>SeqNo = i + int j + 1, Storing = False,
                       ColumnName = Ident_Name (IndexKey_Name (ks ! j))\<rparr>) [0..<length ks]"
proof (induction ks arbitrary: i cols)
  case Nil
  show ?case by simp
next
  case (Cons c cs)
  have shift: "map f [0..<Suc n] = f 0 # map (\<lambda>j. f (Suc j)) [0..<n]"
    for f :: "nat \<Rightarrow> IndexColumn" and n
    by (simp add: map_upt_Suc del: upt_Suc)
  show ?case
    by (simp add: Cons.IH shift add.assoc add.commute del: upt_Suc)
qed

lemma keys_loop_eq: "keys_loop 0 ks [] = key_columns ks"
  by (simp add: keys_loop_from)

lemma IndexColumnList_loop_find:
  "IndexColumnList_loop index ixs cols =
     (case find (\<lambda>ix. Ident_Name (CreateIndex_Name ix) = index) ixs of
        None \<Rightarrow> cols
      | Some ix \<Rightarrow>
          cols @ (case CreateIndex_Storing ix of
                    None \<Rightarrow> []
                  | Some st \<Rightarrow> storing_columns (Storing_Columns st))
            @ key_columns (CreateIndex_Keys ix))"
  by (induction ixs) (simp_all add: storing_loop_eq keys_loop_from split: option.split)

lemma fromDDLs_schema_base: "fromDDLs example_SQL schema_base = Inr catalog_base"
  by (simp add: schema_base_def catalog_base_def example_defs)

lemma fromDDLs_schema_views: "fromDDLs example_SQL schema_views = Inr catalog_views"
  by (simp add: schema_views_def catalog_views_def view_only_def example_defs)

section \<open>What the construction does with a sequence of statements\<close>

lemma addDDLs_append:
  "addDDLs sql tbls (xs @ ys) =
     (case addDDLs sql tbls xs of Inl e \<Rightarrow> Inl e | Inr tbls' \<Rightarrow> addDDLs sql tbls' ys)"
  by (induction xs arbitrary: tbls) (simp_all split: sum.split)

lemma addDDL_undefined_iff:
  "addDDL sql tbls ddl = Inl (Error (TableUndefined n q)) \<longleftrightarrow>
     (\<exists>ci. ddl = DDL_CreateIndex ci \<and> tbls (Ident_Name (CreateIndex_TableName ci)) = None
        \<and> n = Ident_Name (CreateIndex_TableName ci) \<and> q = sql (DDL_CreateIndex ci))"
  by (cases ddl) (auto simp: Let_def split: option.splits TableAlteration.splits)

lemma addDDLs_undefined_iff:
  "addDDLs sql tbls ddls = Inl (Error (TableUndefined n q)) \<longleftrightarrow>
     (\<exists>pre ci post tbls'.
        ddls = pre @ DDL_CreateIndex ci # post \<and> addDDLs sql tbls pre = Inr tbls'
        \<and> tbls' (Ident_Name (CreateIndex_TableName ci)) = None
        \<and> n = Ident_Name (CreateIndex_TableName ci) \<and> q = sql (DDL_CreateIndex ci))"
  (is "?L tbls ddls \<longleftrightarrow> ?R tbls ddls")
proof
  assume "?R tbls ddls"
  then show "?L tbls ddls"
    by (auto simp: addDDLs_append)
next
  assume "?L tbls ddls"
  then show "?R tbls ddls"
  proof (induction ddls arbitrary: tbls)
    case Nil
    then show ?case by simp
  next
    case (Cons ddl ddls)
    show ?case
    proof (cases "addDDL sql tbls ddl")
      case (Inl e)
      with Cons.prems have "addDDL sql tbls ddl = Inl (Error (TableUndefined n q))" by simp
      then obtain ci where "ddl = DDL_CreateIndex ci"
        and "tbls (Ident_Name (CreateIndex_TableName ci)) = None"
        and "n = Ident_Name (CreateIndex_TableName ci)" and "q = sql (DDL_CreateIndex ci)"
        unfolding addDDL_undefined_iff by blast
      then have "ddl # ddls = [] @ DDL_CreateIndex ci # ddls \<and> addDDLs sql tbls [] = Inr tbls
        \<and> tbls (Ident_Name (CreateIndex_TableName ci)) = None
        \<and> n = Ident_Name (CreateIndex_TableName ci) \<and> q = sql (DDL_CreateIndex ci)"
        by simp
      then show ?thesis by blast
    next
      case (Inr tbls1)
      with Cons.prems have "?L tbls1 ddls" by simp
      from Cons.IH [OF this] obtain pre ci post tbls' where
        "ddls = pre @ DDL_CreateIndex ci # post" and "addDDLs sql tbls1 pre = Inr tbls'"
        and "tbls' (Ident_Name (CreateIndex_TableName ci)) = None"
        and "n = Ident_Name (CreateIndex_TableName ci)" and "q = sql (DDL_CreateIndex ci)"
        by blast
      with Inr have "ddl # ddls = (ddl # pre) @ DDL_CreateIndex ci # post
        \<and> addDDLs sql tbls (ddl # pre) = Inr tbls'
        \<and> tbls' (Ident_Name (CreateIndex_TableName ci)) = None
        \<and> n = Ident_Name (CreateIndex_TableName ci) \<and> q = sql (DDL_CreateIndex ci)"
        by simp
      then show ?thesis by blast
    qed
  qed
qed

lemma addDDL_dom: "addDDL sql tbls ddl = Inr tbls' \<Longrightarrow> dom tbls \<subseteq> dom tbls'"
  by (cases ddl) (auto simp: Let_def split: option.splits TableAlteration.splits)

lemma addDDL_dom_table:
  "addDDL sql tbls (DDL_CreateTable val) = Inr tbls' \<Longrightarrow>
     Ident_Name (CreateTable_Name val) \<in> dom tbls'"
  by (auto simp: Let_def)

lemma addDDL_succeeds:
  assumes "no_other_alteration ddl"
    and "\<And>ci. ddl = DDL_CreateIndex ci \<Longrightarrow> Ident_Name (CreateIndex_TableName ci) \<in> dom tbls"
  shows "\<exists>tbls'. addDDL sql tbls ddl = Inr tbls'"
  using assms by (cases ddl) (auto simp: Let_def split: TableAlteration.splits)

lemma addDDLs_succeeds:
  "tables_precede_indexes D ddls \<Longrightarrow> D \<subseteq> dom tbls \<Longrightarrow> list_all no_other_alteration ddls
     \<Longrightarrow> \<exists>tbls'. addDDLs sql tbls ddls = Inr tbls'"
proof (induction ddls arbitrary: D tbls)
  case Nil
  show ?case by simp
next
  case (Cons ddl ddls)
  from Cons.prems have "no_other_alteration ddl" and rest: "list_all no_other_alteration ddls"
    by simp_all
  moreover from Cons.prems
  have "Ident_Name (CreateIndex_TableName ci) \<in> dom tbls" if "ddl = DDL_CreateIndex ci" for ci
    using that by auto
  ultimately obtain tbls1 where step: "addDDL sql tbls ddl = Inr tbls1"
    using addDDL_succeeds [of ddl tbls sql] by blast
  from addDDL_dom [OF step] Cons.prems(2) have sub: "D \<subseteq> dom tbls1" by blast
  have "\<exists>tbls'. addDDLs sql tbls1 ddls = Inr tbls'"
  proof (cases ddl)
    case (DDL_CreateTable val)
    with Cons.prems(1)
    have "tables_precede_indexes (insert (Ident_Name (CreateTable_Name val)) D) ddls"
      by simp
    moreover from step sub have "insert (Ident_Name (CreateTable_Name val)) D \<subseteq> dom tbls1"
      using addDDL_dom_table [of sql tbls val tbls1] by (simp add: DDL_CreateTable)
    ultimately show ?thesis using rest by (rule Cons.IH)
  next
    case (DDL_CreateIndex val)
    with Cons.prems(1) have "tables_precede_indexes D ddls" by simp
    then show ?thesis using sub rest by (rule Cons.IH)
  next
    case (DDL_AlterTable val)
    with Cons.prems(1) have "tables_precede_indexes D ddls" by simp
    then show ?thesis using sub rest by (rule Cons.IH)
  next
    case (DDL_CreateView val)
    with Cons.prems(1) have "tables_precede_indexes D ddls" by simp
    then show ?thesis using sub rest by (rule Cons.IH)
  next
    case (DDL_other ty)
    with Cons.prems(1) have "tables_precede_indexes D ddls" by simp
    then show ?thesis using sub rest by (rule Cons.IH)
  qed
  with step show ?case by simp
qed

lemma addDDL_indexes:
  "addDDL sql tbls ddl = Inr tbls' \<Longrightarrow>
     createIndexes (index0 tbls' n) = createIndexes (index0 tbls n) @ indexes_on n [ddl]"
  by (cases ddl)
    (auto simp: Let_def index0_def zero_tableOrView_def
      split: option.splits TableAlteration.splits if_splits)

lemma indexes_on_Cons: "indexes_on n (ddl # ddls) = indexes_on n [ddl] @ indexes_on n ddls"
  by (cases ddl) simp_all

lemma addDDLs_indexes:
  "addDDLs sql tbls ddls = Inr tbls' \<Longrightarrow>
     createIndexes (index0 tbls' n) = createIndexes (index0 tbls n) @ indexes_on n ddls"
proof (induction ddls arbitrary: tbls)
  case Nil
  then show ?case by simp
next
  case (Cons ddl ddls)
  from Cons.prems obtain tbls1 where 1: "addDDL sql tbls ddl = Inr tbls1"
    and 2: "addDDLs sql tbls1 ddls = Inr tbls'"
    by (auto split: sum.splits)
  from Cons.IH [OF 2] addDDL_indexes [OF 1, of n]
  show ?case by (simp add: indexes_on_Cons [of n ddl ddls])
qed

lemma addDDL_errors:
  "addDDL sql tbls ddl = Inl e \<Longrightarrow>
     (\<exists>n q. e = Error (TableUndefined n q)) \<or> (\<exists>q. e = Error (StmtUnsupported q))"
  by (cases ddl) (auto simp: Let_def split: option.splits TableAlteration.splits)

lemma addDDLs_errors:
  "addDDLs sql tbls ddls = Inl e \<Longrightarrow>
     (\<exists>n q. e = Error (TableUndefined n q)) \<or> (\<exists>q. e = Error (StmtUnsupported q))"
proof (induction ddls arbitrary: tbls)
  case Nil
  then show ?case by simp
next
  case (Cons ddl ddls)
  show ?case
  proof (cases "addDDL sql tbls ddl")
    case (Inl e')
    with Cons.prems have "addDDL sql tbls ddl = Inl e" by simp
    then show ?thesis by (rule addDDL_errors)
  next
    case (Inr tbls')
    with Cons.prems have "addDDLs sql tbls' ddls = Inl e" by simp
    then show ?thesis by (rule Cons.IH)
  qed
qed

lemma NewSpannerLoaderFromDDL_errors:
  assumes "NewSpannerLoaderFromDDL ext fpath = Inl e"
  shows "(\<exists>m. e = Error (External m)) \<or> (\<exists>n q. e = Error (TableUndefined n q))
           \<or> (\<exists>q. e = Error (StmtUnsupported q))"
proof -
  from assms consider (ext) m where "e = Error (External m)"
    | (loop) ddls where "addDDLs (SQL ext) Map.empty ddls = Inl e"
    by (auto simp: NewSpannerLoaderFromDDL_def fromDDLs_def split: sum.splits)
  then show ?thesis
  proof cases
    case ext
    then show ?thesis by simp
  next
    case loop
    from addDDLs_errors [OF this] show ?thesis by blast
  qed
qed

lemma sublist_TableUndefined_name: "sublist n (Error_msg (TableUndefined n q))"
proof -
  have "Error_msg (TableUndefined n q) =
      (''table '' @ quote) @ n @ (quote @ '' is undefined, but got '' @ quote @ q @ quote)"
    by simp
  then show ?thesis unfolding sublist_def by blast
qed

lemma sublist_TableUndefined_stmt: "sublist q (Error_msg (TableUndefined n q))"
proof -
  have "Error_msg (TableUndefined n q) =
      (''table '' @ quote @ n @ quote @ '' is undefined, but got '' @ quote) @ q @ quote"
    by simp
  then show ?thesis unfolding sublist_def by blast
qed


lemma fromDDLs_Inl: "fromDDLs sql ddls = Inl e \<longleftrightarrow> addDDLs sql Map.empty ddls = Inl e"
  by (simp add: fromDDLs_def split: sum.split)

lemma fromDDLs_Inr:
  "fromDDLs sql ddls = Inr s \<longleftrightarrow> addDDLs sql Map.empty ddls = Inr (tables s)"
  by (cases s) (auto simp: fromDDLs_def split: sum.split)

text \<open>
  The entry point reads and parses the file and then runs the loop: every statement about
  \<open>fromDDLs\<close> is one about \<open>NewSpannerLoaderFromDDL\<close> on a file with those statements.
\<close>

lemma NewSpannerLoaderFromDDL_parsed:
  assumes "ReadFile ext fpath = Inr b" and "ParseDDLs ext fpath b = Inr ddls"
  shows "NewSpannerLoaderFromDDL ext fpath = fromDDLs (SQL ext) ddls"
  using assms by (simp add: NewSpannerLoaderFromDDL_def)

lemma NewSpannerLoaderFromDDL_example:
  "NewSpannerLoaderFromDDL (example_extern ddls) fpath = fromDDLs example_SQL ddls"
  by (simp add: NewSpannerLoaderFromDDL_def example_extern_def)

section \<open>The primary key of a table\<close>

text \<open>
  Claim C1 reads: for every catalog built from DDL and every registered table \<open>T\<close> that
  carries a table definition with primary-key columns \<open>k1 .. kn\<close>,
  \<open>IndexColumnList(T, "PRIMARY_KEY")\<close> returns exactly those columns, numbered \<open>1 .. n\<close> in
  the declared order, with no storing flag. \<open>primaryKeyColumnList\<close> looks at the view
  definition of the aggregate first, so the claim fails for a name that carries a table
  definition and a view definition: in \<open>schema_table_and_view\<close> the table \<open>T\<close> has the
  key \<open>k\<close>, and the answer is the key \<open>u\<close> of the table that the view \<open>T\<close> selects from.
\<close>

theorem primary_key_of_table_counterexample:
  "case fromDDLs example_SQL schema_table_and_view of
     Inl e \<Rightarrow> False
   | Inr s \<Rightarrow>
       tables s ''T'' \<noteq> None \<and>
       createTable (the (tables s ''T'')) = Some (example_table ''T'' [''k'']) \<and>
       key_columns (CreateTable_PrimaryKeys (example_table ''T'' [''k''])) =
         [\<lparr>SeqNo = 1, Storing = False, ColumnName = ''k''\<rparr>] \<and>
       IndexColumnList (example_extern schema_table_and_view) s ''T'' ''PRIMARY_KEY'' =
         Inr [\<lparr>SeqNo = 1, Storing = False, ColumnName = ''u''\<rparr>]"
  by (simp add: schema_table_and_view_def example_defs IndexColumnList_def
      primaryKeyColumnList_def baseTablesForViewDDL_def firstOrDefault_def)

text \<open>
  Claim C1, amended: for every catalog and every registered table \<open>T\<close> whose aggregate
  carries a table definition with primary-key columns \<open>k1 .. kn\<close> and carries no view
  definition, \<open>IndexColumnList(T, "PRIMARY_KEY")\<close> returns exactly those columns, numbered
  \<open>1 .. n\<close> in the declared order, with no storing flag.
\<close>

theorem primary_key_of_table:
  assumes "tables s T = Some tbl" and "createTable tbl = Some ct" and "createView tbl = None"
  shows "IndexColumnList ext s T ''PRIMARY_KEY'' =
           Inr (key_columns (CreateTable_PrimaryKeys ct))"
  using assms by (simp add: IndexColumnList_def primaryKeyColumnList_def keys_loop_eq)

theorem primary_key_of_table_witness:
  "case fromDDLs example_SQL schema_base of
     Inl e \<Rightarrow> False
   | Inr s \<Rightarrow>
       tables s ''Base'' \<noteq> None \<and>
       createTable (the (tables s ''Base'')) = Some (example_table ''Base'' [''k1'', ''k2'']) \<and>
       createView (the (tables s ''Base'')) = None \<and>
       IndexColumnList (example_extern schema_base) s ''Base'' ''PRIMARY_KEY'' =
         Inr [\<lparr>SeqNo = 1, Storing = False, ColumnName = ''k1''\<rparr>,
              \<lparr>SeqNo = 2, Storing = False, ColumnName = ''k2''\<rparr>]"
proof -
  define agg where "agg =
    \<lparr>createTable = Some (example_table ''Base'' [''k1'', ''k2'']),
     createIndexes = [example_index ''Idx'' ''Base'' [''k1'', ''k2''] (Some [''s1'', ''s2''])],
     createView = None\<rparr>"
  define s where "s = \<lparr>tables = [''Base'' \<mapsto> agg]\<rparr>"
  have b: "fromDDLs example_SQL schema_base = Inr s"
    by (simp add: schema_base_def s_def agg_def example_defs)
  have 1: "tables s ''Base'' = Some agg" by (simp add: s_def)
  have 2: "createTable agg = Some (example_table ''Base'' [''k1'', ''k2''])"
    by (simp add: agg_def)
  have 3: "createView agg = None" by (simp add: agg_def)
  from primary_key_of_table [OF 1 2 3, of "example_extern schema_base"]
  show ?thesis
    by (simp add: b 1 2 3 example_table_def upt_rec)
qed

section \<open>The columns of an index\<close>

text \<open>
  Claim C3: for every registered table and every index name other than \<open>"PRIMARY_KEY"\<close>,
  \<open>IndexColumnList\<close> scans the indexes of the table in declaration order and, for the
  first index with that name, returns the storing columns first (sequence number 0, storing
  flag set, in declared order) and the key columns after them (numbered from 1 in declared
  order, no storing flag), and looks no further; when no index has the name, the result is
  empty and there is no error.
\<close>

theorem index_columns_of_first_match:
  assumes "index \<noteq> ''PRIMARY_KEY''" and "tables s table = Some tbl"
  shows "IndexColumnList ext s table index =
     Inr (case find (\<lambda>ix. Ident_Name (CreateIndex_Name ix) = index) (createIndexes tbl) of
            None \<Rightarrow> []
          | Some ix \<Rightarrow>
              (case CreateIndex_Storing ix of
                 None \<Rightarrow> []
               | Some st \<Rightarrow> storing_columns (Storing_Columns st))
              @ key_columns (CreateIndex_Keys ix))"
  using assms
  by (simp add: IndexColumnList_def index0_def IndexColumnList_loop_find split: option.split)

theorem index_columns_of_first_match_witness:
  "case fromDDLs example_SQL schema_base of
     Inl e \<Rightarrow> False
   | Inr s \<Rightarrow>
       ''Idx'' \<noteq> ''PRIMARY_KEY'' \<and> ''Nope'' \<noteq> ''PRIMARY_KEY'' \<and> tables s ''Base'' \<noteq> None \<and>
       IndexColumnList (example_extern schema_base) s ''Base'' ''Idx'' =
         Inr [\<lparr>SeqNo = 0, Storing = True, ColumnName = ''s1''\<rparr>,
              \<lparr>SeqNo = 0, Storing = True, ColumnName = ''s2''\<rparr>,
              \<lparr>SeqNo = 1, Storing = False, ColumnName = ''k1''\<rparr>,
              \<lparr>SeqNo = 2, Storing = False, ColumnName = ''k2''\<rparr>] \<and>
       IndexColumnList (example_extern schema_base) s ''Base'' ''Nope'' = Inr []"
proof -
  define agg where "agg =
    \<lparr>createTable = Some (example_table ''Base'' [''k1'', ''k2'']),
     createIndexes = [example_index ''Idx'' ''Base'' [''k1'', ''k2''] (Some [''s1'', ''s2''])],
     createView = None\<rparr>"
  define s where "s = \<lparr>tables = [''Base'' \<mapsto> agg]\<rparr>"
  have b: "fromDDLs example_SQL schema_base = Inr s"
    by (simp add: schema_base_def s_def agg_def example_defs)
  have 1: "tables s ''Base'' = Some agg" by (simp add: s_def)
  have i: "''Idx'' \<noteq> ''PRIMARY_KEY''" and n: "''Nope'' \<noteq> ''PRIMARY_KEY''" by simp_all
  from index_columns_of_first_match [OF i 1, of "example_extern schema_base"]
    index_columns_of_first_match [OF n 1, of "example_extern schema_base"]
  show ?thesis
    by (simp add: b 1 agg_def example_index_def upt_rec)
qed

section \<open>Indexes and the tables they name\<close>

text \<open>
  Claim C2 reads: the construction fails with an undefined-table error, which names the
  missing table and the text of the statement, if and only if it comes to a create-index
  statement whose table has no aggregate yet; and when each table precedes its indexes, the
  construction attaches every index to the aggregate of its table in declaration order and
  succeeds, however many indexes follow. The last part fails as stated: in
  \<open>schema_drop_column\<close> the table precedes its index, and the construction fails on the
  alter-table statement that comes after them.
\<close>

theorem undefined_table_and_index_order_counterexample:
  "tables_precede_indexes {} schema_drop_column \<and>
   fromDDLs example_SQL schema_drop_column =
     Inl (Error (StmtUnsupported ''ALTER TABLE T <*ast.DropColumn>''))"
  by (simp add: schema_drop_column_def example_defs)

text \<open>
  Claim C2, amended: the construction fails with an undefined-table error, which names the
  missing table and the text of the statement, if and only if it comes to a create-index
  statement whose table has no aggregate yet (the statements before it were taken in without
  a failure); whenever the construction succeeds, the indexes of every aggregate are the
  create-index statements on that name in declaration order; and when each table precedes
  its indexes and no alter-table statement has an alteration other than add-constraint, the
  construction succeeds, however many indexes follow.
\<close>

theorem undefined_table_and_index_order:
  "(fromDDLs sql ddls = Inl (Error (TableUndefined n q)) \<longleftrightarrow>
      (\<exists>pre ci post tbls.
         ddls = pre @ DDL_CreateIndex ci # post \<and> addDDLs sql Map.empty pre = Inr tbls
         \<and> tbls (Ident_Name (CreateIndex_TableName ci)) = None
         \<and> n = Ident_Name (CreateIndex_TableName ci) \<and> q = sql (DDL_CreateIndex ci)))
   \<and> sublist n (Error_msg (TableUndefined n q))
   \<and> sublist q (Error_msg (TableUndefined n q))
   \<and> (\<forall>s name. fromDDLs sql ddls = Inr s \<longrightarrow>
         createIndexes (index0 (tables s) name) = indexes_on name ddls)
   \<and> (tables_precede_indexes {} ddls \<and> list_all no_other_alteration ddls \<longrightarrow>
         (\<exists>s. fromDDLs sql ddls = Inr s))"
proof -
  have order: "createIndexes (index0 (tables s) name) = indexes_on name ddls"
    if "fromDDLs sql ddls = Inr s" for s name
  proof -
    from that have "addDDLs sql Map.empty ddls = Inr (tables s)"
      by (simp add: fromDDLs_Inr)
    from addDDLs_indexes [OF this, of name] show ?thesis
      by (simp add: index0_def zero_tableOrView_def)
  qed
  have succeeds: "\<exists>s. fromDDLs sql ddls = Inr s"
    if "tables_precede_indexes {} ddls" and "list_all no_other_alteration ddls"
  proof -
    from addDDLs_succeeds [OF that(1) _ that(2), of Map.empty sql]
    obtain tbls where "addDDLs sql Map.empty ddls = Inr tbls" by auto
    then have "fromDDLs sql ddls = Inr \<lparr>tables = tbls\<rparr>" by (simp add: fromDDLs_def)
    then show ?thesis ..
  qed
  have undefined: "fromDDLs sql ddls = Inl (Error (TableUndefined n q)) \<longleftrightarrow>
      (\<exists>pre ci post tbls.
         ddls = pre @ DDL_CreateIndex ci # post \<and> addDDLs sql Map.empty pre = Inr tbls
         \<and> tbls (Ident_Name (CreateIndex_TableName ci)) = None
         \<and> n = Ident_Name (CreateIndex_TableName ci) \<and> q = sql (DDL_CreateIndex ci))"
    by (simp only: fromDDLs_Inl addDDLs_undefined_iff)
  from undefined sublist_TableUndefined_name [of n q] sublist_TableUndefined_stmt [of q n]
    order succeeds
  show ?thesis by blast
qed

theorem undefined_table_and_index_order_witness:
  "tables_precede_indexes {} schema_indexes \<and> list_all no_other_alteration schema_indexes \<and>
   (case fromDDLs example_SQL schema_indexes of
      Inl e \<Rightarrow> False
    | Inr s \<Rightarrow>
        createIndexes (index0 (tables s) ''T'') =
          [example_index ''I1'' ''T'' [''a''] None, example_index ''I2'' ''T'' [''c''] None] \<and>
        createIndexes (index0 (tables s) ''U'') = [example_index ''J'' ''U'' [''b''] None]) \<and>
   \<not> tables_precede_indexes {} schema_index_first \<and>
   fromDDLs example_SQL schema_index_first =
     Inl (Error (TableUndefined ''T'' ''CREATE INDEX I ON T''))"
proof -
  have p: "tables_precede_indexes {} schema_indexes"
    and a: "list_all no_other_alteration schema_indexes"
    by (simp_all add: schema_indexes_def example_defs)
  from undefined_table_and_index_order [of example_SQL schema_indexes "''T''" "''''"] p a
  obtain s where s: "fromDDLs example_SQL schema_indexes = Inr s"
    and ix: "\<And>name. createIndexes (index0 (tables s) name) = indexes_on name schema_indexes"
    by blast
  have T: "indexes_on ''T'' schema_indexes =
      [example_index ''I1'' ''T'' [''a''] None, example_index ''I2'' ''T'' [''c''] None]"
    and U: "indexes_on ''U'' schema_indexes = [example_index ''J'' ''U'' [''b''] None]"
    by (simp_all add: schema_indexes_def example_defs)
  have f: "\<not> tables_precede_indexes {} schema_index_first"
    and u: "fromDDLs example_SQL schema_index_first =
      Inl (Error (TableUndefined ''T'' ''CREATE INDEX I ON T''))"
    by (simp_all add: schema_index_first_def example_defs)
  from p a s ix [of "''T''"] ix [of "''U''"] T U f u show ?thesis by simp
qed

section \<open>Alter-table statements\<close>

lemma addDDLs_skip:
  assumes "\<And>tbls. addDDL sql tbls ddl = Inr tbls"
  shows "addDDLs sql tbls0 (pre @ ddl # post) = addDDLs sql tbls0 (pre @ post)"
  using assms by (simp add: addDDLs_append split: sum.split)




section \<open>Statements of other kinds\<close>

text \<open>
  Claim C7 says that a statement of a kind other than create-table, create-index,
  create-view and alter-table with add-constraint makes the construction fail with the
  unsupported-statement error. The switch has no default branch: a statement of any other
  type, a \<^verbatim>\<open>DROP TABLE\<close> for one, is skipped without an error, and the construction
  yields the catalog of the remaining statements.
\<close>

theorem other_statement_is_skipped:
  "fromDDLs sql [DDL_other ''*ast.DropTable''] = Inr \<lparr>tables = Map.empty\<rparr>
   \<and> fromDDLs sql (pre @ DDL_other ty # post) = fromDDLs sql (pre @ post)"
proof -
  have "addDDLs sql Map.empty (pre @ DDL_other ty # post) = addDDLs sql Map.empty (pre @ post)"
    by (rule addDDLs_skip) simp
  then show ?thesis by (simp add: fromDDLs_def)
qed

section \<open>The list of tables\<close>

lemma TableList_loop_eq:
  "TableList_loop m ks tbls =
     (if \<forall>k \<in> set ks. createTable (index0 m k) \<noteq> None
      then Inr (tbls @ map (table_of m) ks)
      else Inl (Panic NilDereference))"
  by (induction ks arbitrary: tbls) (auto simp: Let_def split: option.splits)

lemma TableList_eq:
  "TableList s ks =
     (if \<forall>k \<in> set ks. createTable (index0 (tables s) k) \<noteq> None
      then Inr (map (table_of (tables s)) ks)
      else Inl (Panic NilDereference))"
  by (simp add: TableList_def TableList_loop_eq)

lemma IndexList_loop_eq:
  "IndexList_loop ixs indexes =
     indexes @ map (\<lambda>ix. \<lparr>IndexName = Ident_Name (CreateIndex_Name ix),
                           IsUnique = CreateIndex_Unique ix\<rparr>) ixs"
  by (induction ixs arbitrary: indexes) simp_all

lemma fromDDLs_schema_two_tables:
  "fromDDLs example_SQL schema_two_tables = Inr catalog_two_tables"
  by (simp add: schema_two_tables_def catalog_two_tables_def example_defs)

lemma fromDDLs_schema_one_view:
  "fromDDLs example_SQL schema_one_view = Inr catalog_one_view"
  by (simp add: schema_one_view_def catalog_one_view_def example_defs)

text \<open>
  Claim C8 says that \<open>TableList\<close> returns one descriptor, with the manual-primary-key
  flag set, for each aggregate that carries a table definition, and leaves out the
  aggregates without one instead of failing. The loop reads
  \<^verbatim>\<open>t.createTable.Name.Name\<close> for every aggregate and tests nothing: on the catalog of
  a table and a view on it, the call dereferences the nil table definition of the view's
  aggregate and panics, in whichever order the map is visited.
\<close>

theorem TableList_panics_on_view:
  "fromDDLs example_SQL schema_one_view = Inr catalog_one_view \<and>
   range_order (tables catalog_one_view) [''Base'', ''BaseView''] \<and>
   TableList catalog_one_view [''Base'', ''BaseView''] = Inl (Panic NilDereference) \<and>
   range_order (tables catalog_one_view) [''BaseView'', ''Base''] \<and>
   TableList catalog_one_view [''BaseView'', ''Base''] = Inl (Panic NilDereference)"
proof -
  have r: "range_order (tables catalog_one_view) [''Base'', ''BaseView'']"
    "range_order (tables catalog_one_view) [''BaseView'', ''Base'']"
    by (simp_all add: range_order_def catalog_one_view_def insert_commute)
  have t: "TableList catalog_one_view [''Base'', ''BaseView''] = Inl (Panic NilDereference)"
    "TableList catalog_one_view [''BaseView'', ''Base''] = Inl (Panic NilDereference)"
    by (simp_all add: TableList_def catalog_one_view_def example_defs)
  from r t fromDDLs_schema_one_view show ?thesis by simp
qed

text \<open>
  Claim C9 reads: \<open>TableList\<close> and \<open>IndexList\<close> enumerate in a deterministic order, so
  that two catalogs built from the same DDL text give the same results, with the tables in
  the same order. The catalog is a Go map and \<open>TableList\<close> ranges over it: on the
  catalog of two tables, both orders of the two descriptors are results of the call.
\<close>

theorem TableList_order_counterexample:
  "fromDDLs example_SQL schema_two_tables = Inr catalog_two_tables \<and>
   range_order (tables catalog_two_tables) [''A'', ''B''] \<and>
   range_order (tables catalog_two_tables) [''B'', ''A''] \<and>
   TableList catalog_two_tables [''A'', ''B''] =
     Inr [\<lparr>TableName = ''A'', ManualPk = True\<rparr>, \<lparr>TableName = ''B'', ManualPk = True\<rparr>] \<and>
   TableList catalog_two_tables [''B'', ''A''] =
     Inr [\<lparr>TableName = ''B'', ManualPk = True\<rparr>, \<lparr>TableName = ''A'', ManualPk = True\<rparr>] \<and>
   TableList catalog_two_tables [''A'', ''B''] \<noteq> TableList catalog_two_tables [''B'', ''A'']"
proof -
  have r: "range_order (tables catalog_two_tables) [''A'', ''B'']"
    "range_order (tables catalog_two_tables) [''B'', ''A'']"
    by (simp_all add: range_order_def catalog_two_tables_def insert_commute)
  have t: "TableList catalog_two_tables [''A'', ''B''] =
      Inr [\<lparr>TableName = ''A'', ManualPk = True\<rparr>, \<lparr>TableName = ''B'', ManualPk = True\<rparr>]"
    "TableList catalog_two_tables [''B'', ''A''] =
      Inr [\<lparr>TableName = ''B'', ManualPk = True\<rparr>, \<lparr>TableName = ''A'', ManualPk = True\<rparr>]"
    by (simp_all add: TableList_def catalog_two_tables_def example_defs)
  from r t fromDDLs_schema_two_tables show ?thesis by simp
qed

text \<open>
  Claim C9, amended: for every catalog, \<open>IndexList\<close> returns the indexes of the aggregate
  in declaration order, and any two runs of \<open>TableList\<close> either both panic or return the
  same descriptors with the same multiplicities; the order in which \<open>TableList\<close>
  enumerates the aggregates is the order of Go's map iteration and is not determined by
  the DDL text.
\<close>

theorem TableList_same_tables:
  assumes "range_order (tables s) ks1" and "range_order (tables s) ks2"
  shows "((TableList s ks1 = Inl (Panic NilDereference)
             \<and> TableList s ks2 = Inl (Panic NilDereference))
          \<or> (\<exists>r1 r2. TableList s ks1 = Inr r1 \<and> TableList s ks2 = Inr r2 \<and> mset r1 = mset r2))
       \<and> IndexList s name =
           Inr (map (\<lambda>ix. \<lparr>IndexName = Ident_Name (CreateIndex_Name ix),
                             IsUnique = CreateIndex_Unique ix\<rparr>)
                  (createIndexes (index0 (tables s) name)))"
proof
  define f where "f = table_of (tables s)"
  define ok where "ok ks \<longleftrightarrow> (\<forall>k \<in> set ks. createTable (index0 (tables s) k) \<noteq> None)" for ks
  have TL: "TableList s ks = (if ok ks then Inr (map f ks) else Inl (Panic NilDereference))" for ks
    unfolding f_def ok_def by (rule TableList_eq)
  from assms have d: "distinct ks1" "distinct ks2" and e: "set ks1 = set ks2"
    by (simp_all add: range_order_def)
  from d e have "mset ks1 = mset ks2"
    by (simp add: set_eq_iff_mset_eq_distinct)
  then have "image_mset f (mset ks1) = image_mset f (mset ks2)" by simp
  then have ms: "mset (map f ks1) = mset (map f ks2)" by simp
  from e have same: "ok ks1 \<longleftrightarrow> ok ks2" by (simp add: ok_def)
  show "(TableList s ks1 = Inl (Panic NilDereference)
             \<and> TableList s ks2 = Inl (Panic NilDereference))
          \<or> (\<exists>r1 r2. TableList s ks1 = Inr r1 \<and> TableList s ks2 = Inr r2 \<and> mset r1 = mset r2)"
  proof (cases "ok ks1")
    case True
    with same have "TableList s ks1 = Inr (map f ks1)" and "TableList s ks2 = Inr (map f ks2)"
      by (simp_all add: TL)
    with ms show ?thesis by blast
  next
    case False
    with same have "TableList s ks1 = Inl (Panic NilDereference)"
      and "TableList s ks2 = Inl (Panic NilDereference)"
      by (simp_all add: TL)
    then show ?thesis by blast
  qed
  show "IndexList s name =
           Inr (map (\<lambda>ix. \<lparr>IndexName = Ident_Name (CreateIndex_Name ix),
                             IsUnique = CreateIndex_Unique ix\<rparr>)
                  (createIndexes (index0 (tables s) name)))"
    by (simp add: IndexList_def IndexList_loop_eq)
qed

theorem TableList_same_tables_witness:
  "range_order (tables catalog_two_tables) [''A'', ''B''] \<and>
   range_order (tables catalog_two_tables) [''B'', ''A''] \<and>
   mset (projr (TableList catalog_two_tables [''A'', ''B''])) =
     mset (projr (TableList catalog_two_tables [''B'', ''A''])) \<and>
   IndexList catalog_base ''Base'' = Inr [\<lparr>IndexName = ''Idx'', IsUnique = False\<rparr>]"
proof -
  have r: "range_order (tables catalog_two_tables) [''A'', ''B'']"
    "range_order (tables catalog_two_tables) [''B'', ''A'']"
    by (simp_all add: range_order_def catalog_two_tables_def insert_commute)
  have t: "TableList catalog_two_tables [''A'', ''B''] \<noteq> Inl (Panic NilDereference)"
    by (simp add: TableList_def catalog_two_tables_def example_defs)
  from TableList_same_tables [OF r, of "''Base''"] t
  have 1: "mset (projr (TableList catalog_two_tables [''A'', ''B''])) =
     mset (projr (TableList catalog_two_tables [''B'', ''A'']))"
    by auto
  have 2: "IndexList catalog_base ''Base'' = Inr [\<lparr>IndexName = ''Idx'', IsUnique = False\<rparr>]"
    by (simp add: IndexList_def catalog_base_def example_defs)
  from r 1 2 show ?thesis by simp
qed

section \<open>The primary key of a view\<close>

text \<open>
  Claim C4: for every view whose stored query, rendered and parsed again, has a single
  table reference as the source of its top-level FROM clause, and whose base table is
  registered in the catalog with a table definition, \<open>IndexColumnList(V, "PRIMARY_KEY")\<close>
  returns exactly the primary-key columns of the base table, numbered \<open>1 .. n\<close> in the
  order in which the base table declares them.
\<close>

theorem primary_key_of_view:
  assumes "tables s view = Some tbl" and "createView tbl = Some cv"
    and "ParseDDL ext (SQL ext (DDL_CreateView cv)) = Inr (DDL_CreateView cv')"
    and "CreateView_Query cv' = QueryExpr_Select sel"
    and "Select_From sel = Some fr"
    and "From_Source fr = TableExpr_TableName t"
    and "tables s (Ident_Name t) = Some base" and "createTable base = Some ct"
  shows "IndexColumnList ext s view ''PRIMARY_KEY'' =
           Inr (key_columns (CreateTable_PrimaryKeys ct))"
  using assms
  by (simp add: IndexColumnList_def primaryKeyColumnList_def baseTablesForViewDDL_def
      firstOrDefault_def index0_def keys_loop_eq)

theorem primary_key_of_view_witness:
  "fromDDLs example_SQL schema_views = Inr catalog_views \<and>
   tables catalog_views ''BaseView'' =
     Some (view_only (example_view ''BaseView'' (TableExpr_TableName \<lparr>Ident_Name = ''Base''\<rparr>))) \<and>
   ParseDDL (example_extern schema_views)
       (SQL (example_extern schema_views)
          (DDL_CreateView
             (example_view ''BaseView'' (TableExpr_TableName \<lparr>Ident_Name = ''Base''\<rparr>)))) =
     Inr (DDL_CreateView
            (example_view ''BaseView'' (TableExpr_TableName \<lparr>Ident_Name = ''Base''\<rparr>))) \<and>
   createTable (the (tables catalog_views ''Base'')) =
     Some (example_table ''Base'' [''k1'', ''k2'']) \<and>
   IndexColumnList (example_extern schema_views) catalog_views ''BaseView'' ''PRIMARY_KEY'' =
     Inr [\<lparr>SeqNo = 1, Storing = False, ColumnName = ''k1''\<rparr>,
          \<lparr>SeqNo = 2, Storing = False, ColumnName = ''k2''\<rparr>]"
proof -
  let ?src = "TableExpr_TableName \<lparr>Ident_Name = ''Base''\<rparr>"
  let ?cv = "example_view ''BaseView'' ?src"
  let ?ext = "example_extern schema_views"
  let ?base = "\<lparr>createTable = Some (example_table ''Base'' [''k1'', ''k2'']),
            createIndexes = [], createView = None\<rparr>"
  have 1: "tables catalog_views ''BaseView'' = Some (view_only ?cv)"
    by (simp add: catalog_views_def)
  have 2: "createView (view_only ?cv) = Some ?cv"
    by (simp add: view_only_def)
  have 3: "ParseDDL ?ext (SQL ?ext (DDL_CreateView ?cv)) = Inr (DDL_CreateView ?cv)"
    by (simp add: example_extern_def schema_views_def example_view_def example_table_def)
  have 4: "CreateView_Query ?cv = QueryExpr_Select \<lparr>Select_From = Some \<lparr>From_Source = ?src\<rparr>\<rparr>"
    by (simp add: example_view_def)
  have 5: "Select_From \<lparr>Select_From = Some \<lparr>From_Source = ?src\<rparr>\<rparr> = Some \<lparr>From_Source = ?src\<rparr>"
    by simp
  have 6: "From_Source \<lparr>From_Source = ?src\<rparr> = ?src"
    by simp
  have 7: "tables catalog_views (Ident_Name \<lparr>Ident_Name = ''Base''\<rparr>) = Some ?base"
    by (simp add: catalog_views_def)
  have 8: "createTable ?base = Some (example_table ''Base'' [''k1'', ''k2''])"
    by simp
  from primary_key_of_view [OF 1 2 3 4 5 6 7 8] 1 3 7
  show ?thesis
    by (simp add: fromDDLs_schema_views example_table_def upt_rec)
qed

text \<open>
  The errors of the resolver. For a view whose query, rendered and parsed again, is a
  plain SELECT with a FROM clause, \<open>IndexColumnList(view, "PRIMARY_KEY")\<close> fails with
  the error "view with join is not supported" when the source of the FROM clause is a join,
  and with the error "unknown source type", which names the Go type of the source, when the
  source is of any other kind that is not a table reference; the construction of the
  catalog never returns either error, and takes in a create-view statement whatever its
  query is.
\<close>

lemma unsupported_view_source:
  assumes "tables s view = Some tbl" and "createView tbl = Some cv"
    and "ParseDDL ext (SQL ext (DDL_CreateView cv)) = Inr (DDL_CreateView cv')"
    and "CreateView_Query cv' = QueryExpr_Select sel"
    and "Select_From sel = Some fr"
  shows "(\<forall>l r. From_Source fr = TableExpr_Join l r \<longrightarrow>
            IndexColumnList ext s view ''PRIMARY_KEY'' = Inl (Error ViewWithJoin))
       \<and> (\<forall>ty. From_Source fr = TableExpr_other ty \<longrightarrow>
            IndexColumnList ext s view ''PRIMARY_KEY'' = Inl (Error (UnknownSourceType ty)))
       \<and> Error_msg ViewWithJoin = ''view with join is not supported''
       \<and> (\<forall>ty. Error_msg (UnknownSourceType ty) = ''unknown source type: '' @ ty)
       \<and> (\<forall>ext' fpath ty. NewSpannerLoaderFromDDL ext' fpath \<noteq> Inl (Error ViewWithJoin)
            \<and> NewSpannerLoaderFromDDL ext' fpath \<noteq> Inl (Error (UnknownSourceType ty)))
       \<and> (\<forall>sql tbls val. \<exists>tbls'. addDDL sql tbls (DDL_CreateView val) = Inr tbls')"
proof -
  have build: "NewSpannerLoaderFromDDL ext' fpath \<noteq> Inl (Error ViewWithJoin)
      \<and> NewSpannerLoaderFromDDL ext' fpath \<noteq> Inl (Error (UnknownSourceType ty))"
    for ext' fpath ty
    using NewSpannerLoaderFromDDL_errors [of ext' fpath] by blast
  have accept: "\<exists>tbls'. addDDL sql tbls (DDL_CreateView val) = Inr tbls'" for sql tbls val
    by (simp add: Let_def)
  from assms have source:
    "baseTablesForViewDDL ext (SQL ext (DDL_CreateView cv)) =
       (case From_Source fr of
          TableExpr_TableName t \<Rightarrow> Inr [Ident_Name t]
        | TableExpr_Join l r \<Rightarrow> Inl (Error ViewWithJoin)
        | TableExpr_other ty \<Rightarrow> Inl (Error (UnknownSourceType ty)))"
    by (simp add: baseTablesForViewDDL_def)
  from assms have resolve:
    "IndexColumnList ext s view ''PRIMARY_KEY'' = Inl e"
    if "baseTablesForViewDDL ext (SQL ext (DDL_CreateView cv)) = Inl e" for e
    using that by (simp add: IndexColumnList_def primaryKeyColumnList_def)
  have join: "IndexColumnList ext s view ''PRIMARY_KEY'' = Inl (Error ViewWithJoin)"
    if "From_Source fr = TableExpr_Join l r" for l r
    using that source by (intro resolve) simp
  have other: "IndexColumnList ext s view ''PRIMARY_KEY'' = Inl (Error (UnknownSourceType ty))"
    if "From_Source fr = TableExpr_other ty" for ty
    using that source by (intro resolve) simp
  from join other build accept show ?thesis by simp
qed

lemma unsupported_view_source_example:
  "fromDDLs example_SQL schema_views = Inr catalog_views \<and>
   IndexColumnList (example_extern schema_views) catalog_views ''JoinView'' ''PRIMARY_KEY'' =
     Inl (Error ViewWithJoin) \<and>
   IndexColumnList (example_extern schema_views) catalog_views ''SubView'' ''PRIMARY_KEY'' =
     Inl (Error (UnknownSourceType ''*ast.SubQueryTableExpr'')) \<and>
   Error_msg (UnknownSourceType ''*ast.SubQueryTableExpr'') =
     ''unknown source type: *ast.SubQueryTableExpr''"
proof -
  let ?ext = "example_extern schema_views"
  let ?j = "TableExpr_Join (TableExpr_TableName \<lparr>Ident_Name = ''Base''\<rparr>)
                           (TableExpr_TableName \<lparr>Ident_Name = ''Other''\<rparr>)"
  let ?o = "TableExpr_other ''*ast.SubQueryTableExpr''"
  let ?jv = "example_view ''JoinView'' ?j"
  let ?ov = "example_view ''SubView'' ?o"
  have j1: "tables catalog_views ''JoinView'' = Some (view_only ?jv)"
    and o1: "tables catalog_views ''SubView'' = Some (view_only ?ov)"
    by (simp_all add: catalog_views_def)
  have j2: "createView (view_only ?jv) = Some ?jv"
    and o2: "createView (view_only ?ov) = Some ?ov"
    by (simp_all add: view_only_def)
  have j3: "ParseDDL ?ext (SQL ?ext (DDL_CreateView ?jv)) = Inr (DDL_CreateView ?jv)"
    and o3: "ParseDDL ?ext (SQL ?ext (DDL_CreateView ?ov)) = Inr (DDL_CreateView ?ov)"
    by (simp_all add: example_extern_def schema_views_def example_view_def example_table_def)
  have j4: "CreateView_Query ?jv = QueryExpr_Select \<lparr>Select_From = Some \<lparr>From_Source = ?j\<rparr>\<rparr>"
    and o4: "CreateView_Query ?ov = QueryExpr_Select \<lparr>Select_From = Some \<lparr>From_Source = ?o\<rparr>\<rparr>"
    by (simp_all add: example_view_def)
  have j5: "Select_From \<lparr>Select_From = Some \<lparr>From_Source = ?j\<rparr>\<rparr> = Some \<lparr>From_Source = ?j\<rparr>"
    and o5: "Select_From \<lparr>Select_From = Some \<lparr>From_Source = ?o\<rparr>\<rparr> = Some \<lparr>From_Source = ?o\<rparr>"
    by simp_all
  from unsupported_view_source [OF j1 j2 j3 j4 j5]
  have J: "IndexColumnList ?ext catalog_views ''JoinView'' ''PRIMARY_KEY'' =
      Inl (Error ViewWithJoin)"
    by simp
  from unsupported_view_source [OF o1 o2 o3 o4 o5]
  have O: "IndexColumnList ?ext catalog_views ''SubView'' ''PRIMARY_KEY'' =
      Inl (Error (UnknownSourceType ''*ast.SubQueryTableExpr''))"
    and M: "Error_msg (UnknownSourceType ''*ast.SubQueryTableExpr'') =
      ''unknown source type: '' @ ''*ast.SubQueryTableExpr''"
    by simp_all
  from J O M fromDDLs_schema_views show ?thesis by simp
qed

text \<open>
  A query of the re-parsed view that is not a plain SELECT with a FROM clause does not
  reach the switch on the source: when the query is of another type, the type assertion to
  \<^verbatim>\<open>*ast.Select\<close> panics, and when the SELECT has no FROM clause, the read of its
  source dereferences nil.
\<close>

lemma view_query_without_FROM_source:
  assumes "tables s view = Some tbl" and "createView tbl = Some cv"
    and "ParseDDL ext (SQL ext (DDL_CreateView cv)) = Inr (DDL_CreateView cv')"
  shows "CreateView_Query cv' = QueryExpr_other ty \<Longrightarrow>
           IndexColumnList ext s view ''PRIMARY_KEY'' = Inl (Panic InterfaceConversion)"
    and "CreateView_Query cv' = QueryExpr_Select sel \<Longrightarrow> Select_From sel = None \<Longrightarrow>
           IndexColumnList ext s view ''PRIMARY_KEY'' = Inl (Panic NilDereference)"
  using assms
  by (simp_all add: IndexColumnList_def primaryKeyColumnList_def baseTablesForViewDDL_def)

text \<open>
  Claim C5 says that the resolution of the primary key of a view fails with the explicit
  error "view with join is not supported" for a join and with the explicit error "unknown
  source type" for every other shape that is not a single table, a set operation among
  them, and that these failures arise at resolution time only. The construction does take
  in the view of \<open>schema_union_view\<close>, whose query is a set operation; the resolution
  then returns no error: the type assertion \<^verbatim>\<open>Query.(*ast.Select)\<close> of
  \<open>baseTablesForViewDDL\<close> has no \<^verbatim>\<open>ok\<close> form, and the call panics.
\<close>

theorem view_on_set_operation_panics:
  "fromDDLs example_SQL schema_union_view = Inr catalog_union_view \<and>
   tables catalog_union_view ''UnionView'' = Some (view_only union_view) \<and>
   ParseDDL (example_extern schema_union_view)
       (SQL (example_extern schema_union_view) (DDL_CreateView union_view)) =
     Inr (DDL_CreateView union_view) \<and>
   IndexColumnList (example_extern schema_union_view) catalog_union_view
       ''UnionView'' ''PRIMARY_KEY'' =
     Inl (Panic InterfaceConversion)"
  by (simp add: schema_union_view_def catalog_union_view_def union_view_def view_only_def
      example_defs IndexColumnList_def primaryKeyColumnList_def baseTablesForViewDDL_def)

section \<open>A view on a table that is not registered\<close>

text \<open>
  What \<open>baseTablesForViewDDL\<close> returns without an error is the one-element list of the
  table that the FROM clause names, so the default of \<open>firstOrDefault\<close>, the empty
  string, is never the name that \<open>primaryKeyColumnList\<close> looks up.
\<close>

lemma baseTablesForViewDDL_Inr:
  "baseTablesForViewDDL ext b = Inr sourceTable \<longleftrightarrow>
     (\<exists>cv sel fr t.
        ParseDDL ext b = Inr (DDL_CreateView cv) \<and> CreateView_Query cv = QueryExpr_Select sel
        \<and> Select_From sel = Some fr \<and> From_Source fr = TableExpr_TableName t
        \<and> sourceTable = [Ident_Name t])"
  by (auto simp: baseTablesForViewDDL_def
      split: sum.splits DDL.splits QueryExpr.splits option.splits TableExpr.splits)

lemma firstOrDefault_Nil: "firstOrDefault zero [] = zero"
  and firstOrDefault_Cons: "firstOrDefault zero (x # xs) = x"
  by (simp_all add: firstOrDefault_def)

text \<open>
  Claim C10: when \<open>IndexColumnList(V, "PRIMARY_KEY")\<close> is called on a registered view
  whose query re-parses to a single table as the source of its FROM clause, the lookup of
  that table's name is not guarded: the call panics on the nil table definition exactly
  when the name is not registered with a table definition, where it returns neither an
  empty result nor an error, and it returns the key columns of that table when the name is
  registered with one. The list of source tables is never empty, so the case of the
  empty-string default does not arise.
\<close>

theorem view_of_unregistered_table:
  assumes "tables s view = Some tbl" and "createView tbl = Some cv"
    and "ParseDDL ext (SQL ext (DDL_CreateView cv)) = Inr (DDL_CreateView cv')"
    and "CreateView_Query cv' = QueryExpr_Select sel"
    and "Select_From sel = Some fr"
    and "From_Source fr = TableExpr_TableName t"
  shows "(IndexColumnList ext s view ''PRIMARY_KEY'' = Inl (Panic NilDereference) \<longleftrightarrow>
            \<not> (\<exists>base ct. tables s (Ident_Name t) = Some base \<and> createTable base = Some ct))
       \<and> (\<forall>base ct. tables s (Ident_Name t) = Some base \<and> createTable base = Some ct \<longrightarrow>
            IndexColumnList ext s view ''PRIMARY_KEY'' =
              Inr (key_columns (CreateTable_PrimaryKeys ct)))
       \<and> baseTablesForViewDDL ext (SQL ext (DDL_CreateView cv)) = Inr [Ident_Name t]
       \<and> (\<forall>b sourceTable. baseTablesForViewDDL ext b = Inr sourceTable \<longrightarrow> sourceTable \<noteq> [])"
proof -
  let ?n = "Ident_Name t"
  from assms have src: "baseTablesForViewDDL ext (SQL ext (DDL_CreateView cv)) = Inr [?n]"
    by (simp add: baseTablesForViewDDL_def)
  with assms(1,2) have eq: "IndexColumnList ext s view ''PRIMARY_KEY'' =
      (case createTable (index0 (tables s) ?n) of
         None \<Rightarrow> Inl (Panic NilDereference)
       | Some ct \<Rightarrow> Inr (key_columns (CreateTable_PrimaryKeys ct)))"
    by (simp add: IndexColumnList_def primaryKeyColumnList_def firstOrDefault_def keys_loop_eq
        split: option.split)
  have reg: "createTable (index0 (tables s) ?n) = None \<longleftrightarrow>
      \<not> (\<exists>base ct. tables s ?n = Some base \<and> createTable base = Some ct)"
    by (cases "tables s ?n") (auto simp: index0_def zero_tableOrView_def)
  have panic: "IndexColumnList ext s view ''PRIMARY_KEY'' = Inl (Panic NilDereference) \<longleftrightarrow>
      createTable (index0 (tables s) ?n) = None"
    unfolding eq by (simp split: option.split)
  have ok: "IndexColumnList ext s view ''PRIMARY_KEY'' =
      Inr (key_columns (CreateTable_PrimaryKeys ct))"
    if "tables s ?n = Some base" and "createTable base = Some ct" for base ct
    unfolding eq using that by (simp add: index0_def)
  have nonempty: "sourceTable \<noteq> []"
    if "baseTablesForViewDDL ext b = Inr sourceTable" for b sourceTable
    using that unfolding baseTablesForViewDDL_Inr by auto
  from panic reg
  have 1: "IndexColumnList ext s view ''PRIMARY_KEY'' = Inl (Panic NilDereference) \<longleftrightarrow>
      \<not> (\<exists>base ct. tables s ?n = Some base \<and> createTable base = Some ct)"
    by (rule trans)
  from ok
  have 2: "\<forall>base ct. tables s ?n = Some base \<and> createTable base = Some ct \<longrightarrow>
      IndexColumnList ext s view ''PRIMARY_KEY'' =
        Inr (key_columns (CreateTable_PrimaryKeys ct))"
    by simp
  from nonempty
  have 3: "\<forall>b sourceTable. baseTablesForViewDDL ext b = Inr sourceTable \<longrightarrow> sourceTable \<noteq> []"
    by simp
  from 1 2 src 3 show ?thesis by (intro conjI)
qed

theorem view_of_unregistered_table_witness:
  "tables catalog_views ''Orphan'' =
     Some (view_only (example_view ''Orphan'' (TableExpr_TableName \<lparr>Ident_Name = ''Missing''\<rparr>))) \<and>
   ParseDDL (example_extern schema_views)
       (SQL (example_extern schema_views)
          (DDL_CreateView
             (example_view ''Orphan'' (TableExpr_TableName \<lparr>Ident_Name = ''Missing''\<rparr>)))) =
     Inr (DDL_CreateView
            (example_view ''Orphan'' (TableExpr_TableName \<lparr>Ident_Name = ''Missing''\<rparr>))) \<and>
   tables catalog_views ''Missing'' = None \<and>
   IndexColumnList (example_extern schema_views) catalog_views ''Orphan'' ''PRIMARY_KEY'' =
     Inl (Panic NilDereference) \<and>
   tables catalog_views ''Base'' \<noteq> None \<and>
   IndexColumnList (example_extern schema_views) catalog_views ''BaseView'' ''PRIMARY_KEY'' \<noteq>
     Inl (Panic NilDereference)"
proof -
  let ?ext = "example_extern schema_views"
  let ?m = "TableExpr_TableName \<lparr>Ident_Name = ''Missing''\<rparr>"
  let ?b = "TableExpr_TableName \<lparr>Ident_Name = ''Base''\<rparr>"
  let ?ov = "example_view ''Orphan'' ?m"
  let ?bv = "example_view ''BaseView'' ?b"
  let ?base = "\<lparr>createTable = Some (example_table ''Base'' [''k1'', ''k2'']),
            createIndexes = [], createView = None\<rparr>"
  have o1: "tables catalog_views ''Orphan'' = Some (view_only ?ov)"
    and b1: "tables catalog_views ''BaseView'' = Some (view_only ?bv)"
    by (simp_all add: catalog_views_def)
  have o2: "createView (view_only ?ov) = Some ?ov"
    and b2: "createView (view_only ?bv) = Some ?bv"
    by (simp_all add: view_only_def)
  have o3: "ParseDDL ?ext (SQL ?ext (DDL_CreateView ?ov)) = Inr (DDL_CreateView ?ov)"
    and b3: "ParseDDL ?ext (SQL ?ext (DDL_CreateView ?bv)) = Inr (DDL_CreateView ?bv)"
    by (simp_all add: example_extern_def schema_views_def example_view_def example_table_def)
  have o4: "CreateView_Query ?ov = QueryExpr_Select \<lparr>Select_From = Some \<lparr>From_Source = ?m\<rparr>\<rparr>"
    and b4: "CreateView_Query ?bv = QueryExpr_Select \<lparr>Select_From = Some \<lparr>From_Source = ?b\<rparr>\<rparr>"
    by (simp_all add: example_view_def)
  have o5: "Select_From \<lparr>Select_From = Some \<lparr>From_Source = ?m\<rparr>\<rparr> = Some \<lparr>From_Source = ?m\<rparr>"
    and b5: "Select_From \<lparr>Select_From = Some \<lparr>From_Source = ?b\<rparr>\<rparr> = Some \<lparr>From_Source = ?b\<rparr>"
    by simp_all
  have o6: "From_Source \<lparr>From_Source = ?m\<rparr> = ?m" and b6: "From_Source \<lparr>From_Source = ?b\<rparr> = ?b"
    by simp_all
  have missing: "tables catalog_views ''Missing'' = None"
    and base: "tables catalog_views ''Base'' = Some ?base"
    by (simp_all add: catalog_views_def)
  from view_of_unregistered_table [OF o1 o2 o3 o4 o5 o6] missing
  have O: "IndexColumnList ?ext catalog_views ''Orphan'' ''PRIMARY_KEY'' =
      Inl (Panic NilDereference)"
    by simp
  from view_of_unregistered_table [OF b1 b2 b3 b4 b5 b6] base
  have B: "IndexColumnList ?ext catalog_views ''BaseView'' ''PRIMARY_KEY'' \<noteq>
      Inl (Panic NilDereference)"
    by simp
  from o1 o3 missing O base B show ?thesis by simp
qed

end
